theory Spec2Isabelle
  imports Complex_Main "HOL-Library.Word" "HOL-Library.List_Lexorder" "HOL-Library.Multiset"
    "HOL-Library.Log_Nat"
begin

section \<open>JavaScript values\<close>

text \<open>
  A JavaScript string is a sequence of 16-bit code units; \<open>length\<close>, \<open>slice\<close>,
  \<open>trim\<close>, the comparison of strings and a regular expression without the
  \<open>u\<close> flag all work on code units. String literals of the source are ASCII
  and are written through \<open>of_ascii\<close>.

  A number is modelled by the real number it denotes: every finite double is
  a real, and \<open><\<close>, \<open>>\<close> and the sign of a difference of two doubles are those
  of the reals. In \<open>FraudRiskMeter\<close> and \<open>TokenFlowDiagram\<close> a product is
  written with the product of the reals. In \<open>GasComparisonChart\<close> the digits
  shown depend on how each operation rounds, so there every operation is
  followed by the rounding of binary64 arithmetic (\<open>to_double\<close> below).
  \<open>NaN\<close> is not modelled; an operation whose result is infinite has no value
  (\<open>None\<close>).
\<close>

type_synonym code_unit = "16 word"
type_synonym jsstring = "code_unit list"

definition of_ascii :: "string \<Rightarrow> jsstring" where
  "of_ascii cs = map of_char cs"

text \<open>
  The response of the service is parsed JSON, read by the components with
  optional chaining and \<open>||\<close>; it is modelled untyped, as the code reads it.
  An object is the list of its own properties in enumeration order.
\<close>

datatype jsvalue =
    Undefined
  | Null
  | Bool bool
  | Num real
  | Str jsstring
  | Arr "jsvalue list"
  | Obj "(jsstring \<times> jsvalue) list"

text \<open>
  \<open>o?.k\<close> for a key that no prototype defines: the own property of an object,
  \<open>undefined\<close> when it is missing, and \<open>undefined\<close> on \<open>undefined\<close>, on \<open>null\<close>
  (where \<open>?.\<close> stops) and on every primitive and array.
\<close>

fun property :: "jsvalue \<Rightarrow> jsstring \<Rightarrow> jsvalue" where
  "property (Obj kvs) k = (case map_of kvs k of None \<Rightarrow> Undefined | Some v \<Rightarrow> v)"
| "property _ k = Undefined"

fun truthy :: "jsvalue \<Rightarrow> bool" where
  "truthy Undefined = False"
| "truthy Null = False"
| "truthy (Bool b) = b"
| "truthy (Num x) = (x \<noteq> 0)"
| "truthy (Str s) = (s \<noteq> [])"
| "truthy (Arr _) = True"
| "truthy (Obj _) = True"

definition js_or :: "jsvalue \<Rightarrow> jsvalue \<Rightarrow> jsvalue" where
  "js_or a b = (if truthy a then a else b)"

text \<open>
  \<open>slice(start, end)\<close> of strings and of arrays: a negative index counts from
  the end, every index is clamped to the length, a missing \<open>end\<close> is the length.
\<close>

definition relative_index :: "int \<Rightarrow> nat \<Rightarrow> nat" where
  "relative_index i len = (if i < 0 then nat (max (int len + i) 0) else min (nat i) len)"

definition slice_js :: "'a list \<Rightarrow> int \<Rightarrow> int option \<Rightarrow> 'a list" where
  "slice_js xs start end =
     (let len = length xs;
          k = relative_index start len;
          final = (case end of None \<Rightarrow> len | Some e \<Rightarrow> relative_index e len)
      in take (final - k) (drop k xs))"

text \<open>
  \<open>Array.prototype.sort(cmp)\<close> is stable, and for a consistent comparator its
  result is determined: the stable sort, here by insertion. An element goes
  in front of the first element it does not have to follow (\<open>cmp x y \<le> 0\<close>).
\<close>

fun insert_by :: "('a \<Rightarrow> 'a \<Rightarrow> real) \<Rightarrow> 'a \<Rightarrow> 'a list \<Rightarrow> 'a list" where
  "insert_by cmp x [] = [x]"
| "insert_by cmp x (y # ys) = (if cmp x y \<le> 0 then x # y # ys else y # insert_by cmp x ys)"

definition sort_js :: "('a \<Rightarrow> 'a \<Rightarrow> real) \<Rightarrow> 'a list \<Rightarrow> 'a list" where
  "sort_js cmp xs = foldr (insert_by cmp) xs []"


section \<open>TransactionInput: validation of the submitted hash\<close>

text \<open>
  \<open>String.prototype.trim\<close> removes, at both ends, the code units of the
  ECMAScript productions WhiteSpace (TAB, VT, FF, SP, NBSP, ZWNBSP and the
  space separators) and LineTerminator (LF, CR, LS, PS).
\<close>

definition isWhiteSpace :: "code_unit \<Rightarrow> bool" where
  "isWhiteSpace c \<longleftrightarrow>
     List.member [0x0009, 0x000A, 0x000B, 0x000C, 0x000D, 0x0020, 0x00A0, 0x1680,
                  0x2028, 0x2029, 0x202F, 0x205F, 0x3000, 0xFEFF] c
     \<or> (0x2000 \<le> c \<and> c \<le> 0x200A)"

definition trim :: "jsstring \<Rightarrow> jsstring" where
  "trim s = rev (dropWhile isWhiteSpace (rev (dropWhile isWhiteSpace s)))"

text \<open>
  The regular expression \<^verbatim>\<open>/^0x[a-fA-F0-9]{64}$/\<close> has no alternation and only a
  counted repetition, so it is a fixed sequence of atoms, each consuming one
  code unit; with both anchors (and no \<open>m\<close> flag) \<open>test\<close> succeeds exactly
  when the whole input is consumed by the whole sequence.
\<close>

datatype atom = Lit code_unit | Class "(code_unit \<times> code_unit) list"

fun atom_matches :: "atom \<Rightarrow> code_unit \<Rightarrow> bool" where
  "atom_matches (Lit a) c = (c = a)"
| "atom_matches (Class rs) c = list_ex (\<lambda>(lo, hi). lo \<le> c \<and> c \<le> hi) rs"

definition test :: "atom list \<Rightarrow> jsstring \<Rightarrow> bool" where
  "test atoms s = list_all2 atom_matches atoms s"

definition pattern :: "atom list" where
  "pattern = [Lit (of_char CHR ''0''), Lit (of_char CHR ''x'')] @
     replicate 64 (Class [(of_char CHR ''a'', of_char CHR ''f''),
                          (of_char CHR ''A'', of_char CHR ''F''),
                          (of_char CHR ''0'', of_char CHR ''9'')])"

definition validateHash :: "jsstring \<Rightarrow> bool" where
  "validateHash hash = test pattern hash"

text \<open>
  \<open>handleSubmit\<close> reads the component state \<open>txHash\<close>, sets the state \<open>error\<close>
  and may call the property \<open>onSubmit\<close>. The result records the final value of
  \<open>error\<close> and the arguments of the calls of \<open>onSubmit\<close>, in order; \<open>onSubmit\<close>
  is the only way out of the component (it is \<open>handleSubmit\<close> of \<open>App\<close>, which
  posts the hash to the service).
\<close>

record submit_effect =
  error :: jsstring
  onSubmit_calls :: "jsstring list"

definition handleSubmit :: "jsstring \<Rightarrow> submit_effect" where
  "handleSubmit txHash =
     (let st = \<lparr>error = [], onSubmit_calls = []\<rparr>;
          trimmedHash = trim txHash
      in if trimmedHash = [] then
           st\<lparr>error := of_ascii ''Please enter a transaction hash''\<rparr>
         else if \<not> validateHash trimmedHash then
           st\<lparr>error := of_ascii
             ''Invalid transaction hash format. Must be 0x followed by 64 hex characters.''\<rparr>
         else
           st\<lparr>onSubmit_calls := onSubmit_calls st @ [trimmedHash]\<rparr>)"

text \<open>
  The format as the specification words it: the two code units \<open>0x\<close>, then
  exactly 64 hexadecimal digits.
\<close>

definition isHexDigit :: "code_unit \<Rightarrow> bool" where
  "isHexDigit c \<longleftrightarrow>
     (of_char CHR ''0'' \<le> c \<and> c \<le> of_char CHR ''9'') \<or>
     (of_char CHR ''a'' \<le> c \<and> c \<le> of_char CHR ''f'') \<or>
     (of_char CHR ''A'' \<le> c \<and> c \<le> of_char CHR ''F'')"

definition is_0x_64_hex :: "jsstring \<Rightarrow> bool" where
  "is_0x_64_hex s \<longleftrightarrow>
     take 2 s = of_ascii ''0x'' \<and> length (drop 2 s) = 64 \<and> list_all isHexDigit (drop 2 s)"

section \<open>App: the properties passed to the two analysis panels\<close>

text \<open>
  The attributes of \<open><FraudRiskMeter>\<close> and \<open><GasComparisonChart>\<close> in the
  render of \<open>App\<close>, as the property object each component receives.
\<close>

definition FraudRiskMeter_props :: "jsvalue \<Rightarrow> jsvalue" where
  "FraudRiskMeter_props result =
     (let fraud_analysis = property result (of_ascii ''fraud_analysis'')
      in Obj [
        (of_ascii ''riskScore'',
           js_or (property fraud_analysis (of_ascii ''risk_score'')) (Num 0)),
        (of_ascii ''riskLevel'',
           js_or (property fraud_analysis (of_ascii ''risk_level'')) (Str (of_ascii ''UNKNOWN''))),
        (of_ascii ''riskFactors'',
           js_or (property fraud_analysis (of_ascii ''risk_factors'')) (Arr []))])"

definition GasComparisonChart_props :: "jsvalue \<Rightarrow> jsvalue" where
  "GasComparisonChart_props result =
     (let gas_analysis = property result (of_ascii ''gas_analysis'')
      in Obj [
        (of_ascii ''predicted'',
           js_or (property gas_analysis (of_ascii ''predicted_gas_gwei'')) (Num 0)),
        (of_ascii ''actual'',
           js_or (property gas_analysis (of_ascii ''actual_gas_gwei'')) (Num 0)),
        (of_ascii ''efficiency'',
           js_or (property gas_analysis (of_ascii ''efficiency'')) (Str (of_ascii ''NORMAL''))),
        (of_ascii ''feeUsd'',
           js_or (property gas_analysis (of_ascii ''fee_usd'')) (Num 0)),
        (of_ascii ''explanation'',
           property gas_analysis (of_ascii ''explanation''))])"

section \<open>GasComparisonChart\<close>

definition getEfficiencyText :: "jsvalue \<Rightarrow> jsstring" where
  "getEfficiencyText efficiency =
     (if efficiency = Str (of_ascii ''EXCELLENT'') then of_ascii ''Below predicted - Great timing!''
      else if efficiency = Str (of_ascii ''NORMAL'') then of_ascii ''Within expected range''
      else if efficiency = Str (of_ascii ''ABOVE_AVERAGE'') then of_ascii ''Higher than average''
      else if efficiency = Str (of_ascii ''CONGESTED'') then of_ascii ''Network congestion detected''
      else if efficiency = Str (of_ascii ''HIGH'') then of_ascii ''Significantly elevated''
      else of_ascii ''Unknown'')"

definition gasExplanation :: "jsvalue \<Rightarrow> jsvalue" where
  "gasExplanation props =
     js_or (property props (of_ascii ''explanation''))
           (Str (getEfficiencyText (property props (of_ascii ''efficiency''))))"










section \<open>FraudRiskMeter\<close>

definition percentage :: "real \<Rightarrow> real" where
  "percentage riskScore = min (riskScore * 100) 100"

definition rotation :: "real \<Rightarrow> real" where
  "rotation riskScore = (percentage riskScore / 100) * 180 - 90"

text \<open>The end angle of the coloured arc of the gauge, in degrees.\<close>

definition arc_degrees :: "real \<Rightarrow> real" where
  "arc_degrees riskScore = percentage riskScore * 1.8"

section \<open>TokenFlowDiagram\<close>

definition usdValue :: "bool \<Rightarrow> real \<Rightarrow> real option" where
  "usdValue isToken value = (if isToken then None else Some (value * 2500))"

text \<open>
  The first cell of the additional information: its caption and its content.
  \<open>toLocaleString\<close> depends on the locale of the browser and is a parameter;
  \<open>tokenSymbol\<close> may be \<open>undefined\<close>, which renders as nothing.
\<close>

definition infoCaption :: "bool \<Rightarrow> jsstring" where
  "infoCaption isToken = (if isToken then of_ascii ''Token'' else of_ascii ''USD Value (approx)'')"

definition infoContent ::
  "(real \<Rightarrow> jsstring) \<Rightarrow> bool \<Rightarrow> jsstring option \<Rightarrow> real \<Rightarrow> jsstring option" where
  "infoContent toLocaleString isToken tokenSymbol value =
     (if isToken then tokenSymbol
      else Some (of_ascii ''$'' @
        (case usdValue isToken value of
           None \<Rightarrow> of_ascii ''undefined''
         | Some u \<Rightarrow> toLocaleString u)))"

text \<open>
  The second cell, the transfer size. A comparison with an \<open>undefined\<close>
  \<open>tokenAmount\<close> is false.
\<close>

definition transferSize :: "bool \<Rightarrow> real option \<Rightarrow> real \<Rightarrow> jsstring" where
  "transferSize isToken tokenAmount value =
     (if isToken then
        (case tokenAmount of
           None \<Rightarrow> of_ascii ''Small''
         | Some t \<Rightarrow>
             if t > 10000 then of_ascii ''Large''
             else if t > 100 then of_ascii ''Medium''
             else of_ascii ''Small'')
      else
        (if value > 10 then of_ascii ''High Value''
         else if value > 1 then of_ascii ''Medium''
         else of_ascii ''Small''))"

section \<open>TransactionClassification\<close>

text \<open>
  \<open>allCategories\<close> is \<open>undefined\<close>/\<open>null\<close> (\<open>None\<close>) or an object from category
  to probability, given by \<open>Object.entries\<close>: its properties in enumeration
  order.
\<close>

definition sortedCategories :: "('k \<times> real) list option \<Rightarrow> ('k \<times> real) list" where
  "sortedCategories allCategories =
     slice_js
       (sort_js (\<lambda>(_, a) (_, b). b - a)
          (case allCategories of None \<Rightarrow> [] | Some entries \<Rightarrow> entries))
       0 (Some 5)"

section \<open>ExplanationPanel\<close>

definition formatAddress :: "jsstring option \<Rightarrow> jsstring option" where
  "formatAddress addr =
     (case addr of
        None \<Rightarrow> addr
      | Some a \<Rightarrow>
          if a = [] \<or> length a < 15 then addr
          else Some (slice_js a 0 (Some 8) @ of_ascii ''...'' @ slice_js a (- 6) None))"

section \<open>Rule Engine: the risk level\<close>

text \<open>
  Modelled from the spec: \<open>risk_level\<close> of the Rule Engine. The service that
  computes the level is not among the sources; the components only display
  the level they receive. The definition follows section 4.3 of the
  specification: the four buckets, closed below and open above except the
  last, and \<open>InvariantViolation\<close> for a score outside \<open>[0, 1]\<close>.
\<close>

datatype RiskLevel = LOW | MEDIUM | HIGH | CRITICAL | UNKNOWN

datatype rule_error = InvariantViolation

definition risk_level :: "real \<Rightarrow> rule_error + RiskLevel" where
  "risk_level score =
     (if score < 0 \<or> 1 < score then Inl InvariantViolation
      else if score < 0.30 then Inr LOW
      else if score < 0.60 then Inr MEDIUM
      else if score < 0.80 then Inr HIGH
      else Inr CRITICAL)"

section \<open>Properties of the hash validation\<close>

lemma list_all2_replicate_left:
  "list_all2 P (replicate n a) ys \<longleftrightarrow> length ys = n \<and> list_all (P a) ys"
proof (induction n arbitrary: ys)
  case 0
  then show ?case by auto
next
  case (Suc n)
  then show ?case by (cases ys) auto
qed

lemma hex_class_matches:
  "atom_matches (Class [(of_char CHR ''a'', of_char CHR ''f''),
                        (of_char CHR ''A'', of_char CHR ''F''),
                        (of_char CHR ''0'', of_char CHR ''9'')]) c = isHexDigit c"
  by (auto simp: isHexDigit_def)

lemma validateHash_iff: "validateHash s = is_0x_64_hex s"
proof (cases s)
  case Nil
  then show ?thesis
    by (simp add: validateHash_def test_def pattern_def is_0x_64_hex_def of_ascii_def)
next
  case (Cons c0 s')
  show ?thesis
  proof (cases s')
    case Nil
    with Cons show ?thesis
      by (simp add: validateHash_def test_def pattern_def is_0x_64_hex_def of_ascii_def)
  next
    case (Cons c1 r)
    have "validateHash s \<longleftrightarrow>
            c0 = of_char CHR ''0'' \<and> c1 = of_char CHR ''x'' \<and> length r = 64 \<and> list_all isHexDigit r"
      unfolding validateHash_def test_def pattern_def \<open>s = c0 # s'\<close> \<open>s' = c1 # r\<close>
      by (simp only: append.simps list_all2_Cons atom_matches.simps(1)
            list_all2_replicate_left hex_class_matches [abs_def])
    also have "\<dots> \<longleftrightarrow> is_0x_64_hex s"
      unfolding is_0x_64_hex_def of_ascii_def \<open>s = c0 # s'\<close> \<open>s' = c1 # r\<close>
      by (simp add: numeral_2_eq_2)
    finally show ?thesis .
  qed
qed

text \<open>
  C1. For every input string, \<open>handleSubmit\<close> calls \<open>onSubmit\<close> (once, with the
  trimmed input) if and only if the trimmed input is \<open>0x\<close> followed by exactly
  64 hexadecimal digits; for every other input nothing is called and the
  component is left with a non-empty error message.
\<close>

theorem handleSubmit_submits_iff_valid:
  "(onSubmit_calls (handleSubmit s) = [trim s] \<longleftrightarrow> is_0x_64_hex (trim s)) \<and>
   (\<not> is_0x_64_hex (trim s) \<longrightarrow>
      onSubmit_calls (handleSubmit s) = [] \<and> error (handleSubmit s) \<noteq> []) \<and>
   (is_0x_64_hex (trim s) \<longrightarrow> error (handleSubmit s) = [])"
proof -
  have "\<not> is_0x_64_hex []"
    by (simp add: is_0x_64_hex_def of_ascii_def)
  then show ?thesis
    by (auto simp: handleSubmit_def Let_def validateHash_iff of_ascii_def)
qed

theorem handleSubmit_submits_iff_valid_witness:
  "is_0x_64_hex (trim (of_ascii '' 0x5c504ed432cb51138bcf09aa5e8a410dd4a1e204ef84bfed1be16dfba1b22060 '')) \<and>
   onSubmit_calls (handleSubmit (of_ascii '' 0x5c504ed432cb51138bcf09aa5e8a410dd4a1e204ef84bfed1be16dfba1b22060 ''))
     = [of_ascii ''0x5c504ed432cb51138bcf09aa5e8a410dd4a1e204ef84bfed1be16dfba1b22060''] \<and>
   \<not> is_0x_64_hex (trim (of_ascii ''0x5c50'')) \<and>
   onSubmit_calls (handleSubmit (of_ascii ''0x5c50'')) = [] \<and>
   error (handleSubmit (of_ascii ''0x5c50'')) \<noteq> []"
proof -
  have t: "trim (of_ascii '' 0x5c504ed432cb51138bcf09aa5e8a410dd4a1e204ef84bfed1be16dfba1b22060 '')
             = of_ascii ''0x5c504ed432cb51138bcf09aa5e8a410dd4a1e204ef84bfed1be16dfba1b22060''"
    by code_simp
  have v: "is_0x_64_hex (of_ascii ''0x5c504ed432cb51138bcf09aa5e8a410dd4a1e204ef84bfed1be16dfba1b22060'')"
    by code_simp
  have n: "\<not> is_0x_64_hex (trim (of_ascii ''0x5c50''))"
    by code_simp
  show ?thesis
    using handleSubmit_submits_iff_valid
            [of "of_ascii '' 0x5c504ed432cb51138bcf09aa5e8a410dd4a1e204ef84bfed1be16dfba1b22060 ''"]
          handleSubmit_submits_iff_valid [of "of_ascii ''0x5c50''"] t v n
    by simp
qed

section \<open>Properties of the properties passed by App\<close>

lemma FraudRiskMeter_props_missing:
  "property result (of_ascii ''fraud_analysis'') = Undefined \<Longrightarrow>
   FraudRiskMeter_props result =
     Obj [(of_ascii ''riskScore'', Num 0),
          (of_ascii ''riskLevel'', Str (of_ascii ''UNKNOWN'')),
          (of_ascii ''riskFactors'', Arr [])]"
  by (simp add: FraudRiskMeter_props_def js_or_def)

lemma GasComparisonChart_props_missing:
  "property result (of_ascii ''gas_analysis'') = Undefined \<Longrightarrow>
   GasComparisonChart_props result =
     Obj [(of_ascii ''predicted'', Num 0),
          (of_ascii ''actual'', Num 0),
          (of_ascii ''efficiency'', Str (of_ascii ''NORMAL'')),
          (of_ascii ''feeUsd'', Num 0),
          (of_ascii ''explanation'', Undefined)]"
  by (simp add: GasComparisonChart_props_def js_or_def)

text \<open>
  C2. A response without \<open>gas_analysis\<close> (the fraud analysis present) is shown
  by the gas panel with the efficiency \<open>NORMAL\<close> and the text
  \<open>Within expected range\<close>, not as \<open>UNKNOWN\<close>; the fraud panel keeps the
  values of the response.
\<close>

theorem App_missing_gas_analysis_is_NORMAL:
  "property
     (GasComparisonChart_props
        (Obj [(of_ascii ''fraud_analysis'',
                 Obj [(of_ascii ''risk_score'', Num 0.12),
                      (of_ascii ''risk_level'', Str (of_ascii ''LOW''))])]))
     (of_ascii ''efficiency'') = Str (of_ascii ''NORMAL'') \<and>
   Str (of_ascii ''NORMAL'') \<noteq> Str (of_ascii ''UNKNOWN'') \<and>
   gasExplanation
     (GasComparisonChart_props
        (Obj [(of_ascii ''fraud_analysis'',
                 Obj [(of_ascii ''risk_score'', Num 0.12),
                      (of_ascii ''risk_level'', Str (of_ascii ''LOW''))])]))
     = Str (of_ascii ''Within expected range'') \<and>
   property
     (FraudRiskMeter_props
        (Obj [(of_ascii ''fraud_analysis'',
                 Obj [(of_ascii ''risk_score'', Num 0.12),
                      (of_ascii ''risk_level'', Str (of_ascii ''LOW''))])]))
     (of_ascii ''riskLevel'') = Str (of_ascii ''LOW'')"
  by (simp add: GasComparisonChart_props_def FraudRiskMeter_props_def gasExplanation_def
        getEfficiencyText_def js_or_def of_ascii_def)

section \<open>Properties of the transfer size\<close>

lemma transferSize_native:
  "transferSize False tokenAmount v =
     (if v \<le> 1 then of_ascii ''Small''
      else if v \<le> 10 then of_ascii ''Medium''
      else of_ascii ''High Value'')"
  by (simp add: transferSize_def)

text \<open>
  C3. A native transfer of exactly 1 unit is shown as \<open>Small\<close>, not as
  \<open>Medium\<close>; a transfer of 1.5 units is shown as \<open>Medium\<close>.
\<close>

theorem transferSize_at_one:
  "transferSize False None 1 = of_ascii ''Small'' \<and>
   of_ascii ''Small'' \<noteq> of_ascii ''Medium'' \<and>
   transferSize False None 1.5 = of_ascii ''Medium''"
  by (simp add: transferSize_def of_ascii_def)

section \<open>Properties of the category ranking\<close>

lemma slice_js_prefix: "slice_js xs 0 (Some (int n)) = take n xs"
  by (simp add: slice_js_def relative_index_def Let_def min_def)

lemma slice_js_suffix:
  "0 < n \<Longrightarrow> n \<le> length xs \<Longrightarrow> slice_js xs (- int n) None = drop (length xs - n) xs"
  by (auto simp: slice_js_def relative_index_def Let_def nat_diff_distrib')

lemma slice_js_5: "slice_js xs 0 (Some 5) = take 5 xs"
  using slice_js_prefix [of xs 5] by simp

text \<open>
  With the comparator \<open>b - a\<close> on the probabilities, the insertion is the
  library's insertion under the key \<open>- probability\<close>.
\<close>

lemma insert_by_insort:
  "insert_by (\<lambda>(_, a) (_, b). b - a) x ys = insort_key (\<lambda>e. - snd e) x ys"
  by (induction ys) (auto simp: split_def)

lemma sort_js_sort_key:
  "sort_js (\<lambda>(_, a) (_, b). b - a) xs = sort_key (\<lambda>e. - snd e) xs"
  by (induction xs) (simp_all add: sort_js_def insert_by_insort)

lemma sort_js_descending:
  "sorted_wrt (\<lambda>x y. snd y \<le> snd x) (sort_js (\<lambda>(_, a) (_, b). b - a) xs)"
proof -
  have "sorted (map (\<lambda>e. - snd e) (sort_key (\<lambda>e. - snd e) xs))"
    by (rule sorted_sort_key)
  then show ?thesis
    by (simp add: sort_js_sort_key sorted_map)
qed

lemma sort_js_stable:
  "filter (\<lambda>e. snd e = p) (sort_js (\<lambda>(_, a) (_, b). b - a) xs) = filter (\<lambda>e. snd e = p) xs"
proof -
  have "filter (\<lambda>e. - snd e = - p) (sort_key (\<lambda>e. - snd e) xs) = filter (\<lambda>e. - snd e = - p) xs"
    by (rule sort_key_stable)
  then show ?thesis
    by (simp add: sort_js_sort_key)
qed

lemma sort_js_mset: "mset (sort_js (\<lambda>(_, a) (_, b). b - a) xs) = mset xs"
  by (simp add: sort_js_sort_key)

lemma sort_js_sorted_id:
  "sorted_wrt (\<lambda>x y. snd y \<le> snd x) xs \<Longrightarrow> sort_js (\<lambda>(_, a) (_, b). b - a) xs = xs"
proof (induction xs)
  case Nil
  then show ?case by (simp add: sort_js_def)
next
  case (Cons x xs)
  then have "sort_js (\<lambda>(_, a) (_, b). b - a) xs = xs" by simp
  then have "sort_js (\<lambda>(_, a) (_, b). b - a) (x # xs) = insert_by (\<lambda>(_, a) (_, b). b - a) x xs"
    by (simp add: sort_js_def)
  also have "\<dots> = x # xs"
    using Cons.prems by (cases xs) (auto simp: split_def)
  finally show ?case .
qed

text \<open>
  C4, as stated, fails: two categories of equal probability come out in the
  order of the input object, here \<open>Token Transfer\<close> before \<open>DEX Swap\<close>, which
  is not the alphabetical one; and the same two pairs entered in the other
  order come out in the other order.
\<close>

theorem sortedCategories_ties_counterexample:
  "sortedCategories (Some [(of_ascii ''Token Transfer'', 1 / 2), (of_ascii ''DEX Swap'', 1 / 2)])
     = [(of_ascii ''Token Transfer'', 1 / 2), (of_ascii ''DEX Swap'', 1 / 2)] \<and>
   of_ascii ''DEX Swap'' < of_ascii ''Token Transfer'' \<and>
   set [(of_ascii ''Token Transfer'', 1 / 2 :: real), (of_ascii ''DEX Swap'', 1 / 2)]
     = set [(of_ascii ''DEX Swap'', 1 / 2), (of_ascii ''Token Transfer'', 1 / 2)] \<and>
   sortedCategories (Some [(of_ascii ''Token Transfer'', 1 / 2), (of_ascii ''DEX Swap'', 1 / 2)])
     \<noteq> sortedCategories (Some [(of_ascii ''DEX Swap'', 1 / 2), (of_ascii ''Token Transfer'', 1 / 2)])"
  by (simp add: sortedCategories_def slice_js_5 sort_js_def of_ascii_def insert_commute)

text \<open>
  C4, amended. The ranking is the first five entries of a rearrangement of
  the input entries that is in descending order of probability and keeps
  entries of equal probability in the order of the input; for a missing
  distribution it is empty.
\<close>

theorem sortedCategories_ranking:
  "sortedCategories None = [] \<and>
   sortedCategories (Some es) = take 5 (sort_js (\<lambda>(_, a) (_, b). b - a) es) \<and>
   mset (sort_js (\<lambda>(_, a) (_, b). b - a) es) = mset es \<and>
   sorted_wrt (\<lambda>x y. snd y \<le> snd x) (sort_js (\<lambda>(_, a) (_, b). b - a) es) \<and>
   (\<forall>p. filter (\<lambda>e. snd e = p) (sort_js (\<lambda>(_, a) (_, b). b - a) es)
          = filter (\<lambda>e. snd e = p) es)"
proof -
  have "sortedCategories None = []"
    by (simp add: sortedCategories_def slice_js_5 sort_js_def)
  moreover have "sortedCategories (Some es) = take 5 (sort_js (\<lambda>(_, a) (_, b). b - a) es)"
    by (simp add: sortedCategories_def slice_js_5)
  ultimately show ?thesis
    using sort_js_mset [of es] sort_js_descending [of es] sort_js_stable [of _ es] by blast
qed

theorem sortedCategories_ranking_witness:
  "sortedCategories
     (Some [(of_ascii ''Other'', 0.05), (of_ascii ''Token Transfer'', 0.2),
            (of_ascii ''DEX Swap'', 0.2), (of_ascii ''Simple Transfer'', 0.4),
            (of_ascii ''NFT Transaction'', 0.1), (of_ascii ''Bridge Transfer'', 0.05)])
   = [(of_ascii ''Simple Transfer'', 0.4), (of_ascii ''Token Transfer'', 0.2),
      (of_ascii ''DEX Swap'', 0.2), (of_ascii ''NFT Transaction'', 0.1),
      (of_ascii ''Other'', 0.05)]"
proof -
  have "sortedCategories
          (Some [(of_ascii ''Other'', 0.05), (of_ascii ''Token Transfer'', 0.2),
                 (of_ascii ''DEX Swap'', 0.2), (of_ascii ''Simple Transfer'', 0.4),
                 (of_ascii ''NFT Transaction'', 0.1), (of_ascii ''Bridge Transfer'', 0.05)])
        = take 5 (sort_js (\<lambda>(_, a) (_, b). b - a)
            [(of_ascii ''Other'', 0.05), (of_ascii ''Token Transfer'', 0.2),
             (of_ascii ''DEX Swap'', 0.2), (of_ascii ''Simple Transfer'', 0.4),
             (of_ascii ''NFT Transaction'', 0.1), (of_ascii ''Bridge Transfer'', 0.05)])"
    using sortedCategories_ranking by blast
  then show ?thesis
    by (simp add: sort_js_def)
qed

section \<open>Properties of the risk level\<close>

text \<open>
  C5. On \<open>[0, 1]\<close> the risk level is exactly one of the four levels, \<open>LOW\<close>
  below 0.30, \<open>MEDIUM\<close> from 0.30 to below 0.60, \<open>HIGH\<close> from 0.60 to below
  0.80 and \<open>CRITICAL\<close> from 0.80 to 1; the score 0.30 is \<open>MEDIUM\<close>.
\<close>

theorem risk_level_partition:
  assumes "0 \<le> score" and "score \<le> 1"
  shows "(risk_level score = Inr LOW \<longleftrightarrow> score < 0.30) \<and>
         (risk_level score = Inr MEDIUM \<longleftrightarrow> 0.30 \<le> score \<and> score < 0.60) \<and>
         (risk_level score = Inr HIGH \<longleftrightarrow> 0.60 \<le> score \<and> score < 0.80) \<and>
         (risk_level score = Inr CRITICAL \<longleftrightarrow> 0.80 \<le> score) \<and>
         (\<exists>!t. risk_level score = Inr t) \<and>
         risk_level score \<noteq> Inr UNKNOWN \<and>
         risk_level 0.30 = Inr MEDIUM"
  using assms by (auto simp: risk_level_def)

theorem risk_level_partition_witness:
  "risk_level 0.30 = Inr MEDIUM \<and> risk_level 0.12 = Inr LOW \<and> risk_level 1 = Inr CRITICAL \<and>
   risk_level 0.6 = Inr HIGH \<and> risk_level 0 = Inr LOW"
  using risk_level_partition [of "0.30"] risk_level_partition [of "0.12"]
    risk_level_partition [of 1] risk_level_partition [of "0.6"] risk_level_partition [of 0]
  by simp

section \<open>Properties of the gas comparison\<close>






















section \<open>Idempotence of the category ranking\<close>

text \<open>
  C7. Ranking the entries of a ranking gives the same ranking, and entries
  already in descending order of probability are returned in their order
  (the first five of them).
\<close>

theorem sortedCategories_idempotent:
  "sortedCategories (Some (sortedCategories d)) = sortedCategories d \<and>
   (sorted_wrt (\<lambda>x y. snd y \<le> snd x) es \<longrightarrow> sortedCategories (Some es) = take 5 es)"
proof -
  have "sorted_wrt (\<lambda>x y. snd y \<le> snd x) (sortedCategories d)"
    unfolding sortedCategories_def slice_js_5 by (rule sorted_wrt_take) (rule sort_js_descending)
  then have "sort_js (\<lambda>(_, a) (_, b). b - a) (sortedCategories d) = sortedCategories d"
    by (rule sort_js_sorted_id)
  moreover have "take 5 (sortedCategories d) = sortedCategories d"
    by (simp add: sortedCategories_def slice_js_5)
  ultimately have "sortedCategories (Some (sortedCategories d)) = sortedCategories d"
    by (simp add: sortedCategories_def [of "Some _"] slice_js_5)
  then show ?thesis
    by (simp add: sortedCategories_def [of "Some es"] slice_js_5 sort_js_sorted_id)
qed

theorem sortedCategories_idempotent_witness:
  "sorted_wrt (\<lambda>x y. snd y \<le> snd x)
     [(of_ascii ''Simple Transfer'', 0.4 :: real), (of_ascii ''Token Transfer'', 0.2),
      (of_ascii ''DEX Swap'', 0.2), (of_ascii ''NFT Transaction'', 0.1)] \<and>
   sortedCategories
     (Some [(of_ascii ''Simple Transfer'', 0.4), (of_ascii ''Token Transfer'', 0.2),
            (of_ascii ''DEX Swap'', 0.2), (of_ascii ''NFT Transaction'', 0.1)])
   = [(of_ascii ''Simple Transfer'', 0.4), (of_ascii ''Token Transfer'', 0.2),
      (of_ascii ''DEX Swap'', 0.2), (of_ascii ''NFT Transaction'', 0.1)]"
  using sortedCategories_idempotent
    [of "None :: (jsstring \<times> real) list option"
        "[(of_ascii ''Simple Transfer'', 0.4), (of_ascii ''Token Transfer'', 0.2),
          (of_ascii ''DEX Swap'', 0.2), (of_ascii ''NFT Transaction'', 0.1)]"]
  by simp

section \<open>Properties of the address abbreviation\<close>

text \<open>
  C8. \<open>formatAddress\<close> returns a missing address and an address of fewer than
  15 code units (the empty one among them) unchanged, and for every longer
  address its first 8 code units, three dots and its last 6 code units; it
  has a result for every string.
\<close>

theorem formatAddress_abbreviates:
  "formatAddress None = None \<and>
   (length a < 15 \<longrightarrow> formatAddress (Some a) = Some a) \<and>
   (15 \<le> length a \<longrightarrow>
      formatAddress (Some a) = Some (take 8 a @ of_ascii ''...'' @ drop (length a - 6) a)) \<and>
   (\<exists>r. formatAddress (Some a) = Some r)"
proof -
  have p: "slice_js a 0 (Some 8) = take 8 a"
    using slice_js_prefix [of a 8] by simp
  have s: "15 \<le> length a \<Longrightarrow> slice_js a (- 6) None = drop (length a - 6) a"
    using slice_js_suffix [of 6 a] by simp
  show ?thesis
    by (auto simp: formatAddress_def p s)
qed

theorem formatAddress_abbreviates_witness:
  "formatAddress (Some (of_ascii ''0x5c504ed432cb51138bcf09aa5e8a410dd4a1e204ef84bfed1be16dfba1b22060''))
     = Some (of_ascii ''0x5c504e...b22060'') \<and>
   formatAddress (Some (of_ascii ''0x5c504ed432c'')) = Some (of_ascii ''0x5c504ed432c'')"
  using formatAddress_abbreviates
          [of "of_ascii ''0x5c504ed432cb51138bcf09aa5e8a410dd4a1e204ef84bfed1be16dfba1b22060''"]
        formatAddress_abbreviates [of "of_ascii ''0x5c504ed432c''"]
  by (simp add: of_ascii_def)

section \<open>Properties of the risk gauge\<close>

text \<open>
  C9. The percentage of the gauge is \<open>min (riskScore * 100) 100\<close>: it never
  exceeds 100, so the arc ends at 180 degrees at most and the needle turns to
  90 degrees at most, also for a score above 1; for a score in \<open>[0, 1]\<close> it is
  the score times 100.
\<close>

theorem percentage_capped:
  "percentage riskScore = min (riskScore * 100) 100 \<and>
   percentage riskScore \<le> 100 \<and>
   arc_degrees riskScore \<le> 180 \<and>
   rotation riskScore \<le> 90 \<and>
   (1 < riskScore \<longrightarrow>
      percentage riskScore = 100 \<and> arc_degrees riskScore = 180 \<and> rotation riskScore = 90) \<and>
   (0 \<le> riskScore \<and> riskScore \<le> 1 \<longrightarrow> percentage riskScore = riskScore * 100)"
  by (auto simp: percentage_def arc_degrees_def rotation_def min_def)

theorem percentage_capped_witness:
  "percentage 2.5 = 100 \<and> arc_degrees 2.5 = 180 \<and> rotation 2.5 = 90 \<and> percentage 0.12 = 12"
  using percentage_capped [of "2.5"] percentage_capped [of "0.12"]
  by simp

section \<open>Properties of the approximate USD value\<close>

text \<open>
  C10. For a token transfer no USD value is computed (it is \<open>null\<close>) and the
  cell shows the token symbol under the caption \<open>Token\<close>; for every other
  transfer the USD value is the native value times 2500 and the cell shows
  it, formatted, after a dollar sign.
\<close>

theorem usdValue_only_for_native:
  "(isToken \<longrightarrow> usdValue isToken value = None \<and> infoCaption isToken = of_ascii ''Token'' \<and>
       infoContent toLocaleString isToken tokenSymbol value = tokenSymbol) \<and>
   (\<not> isToken \<longrightarrow> usdValue isToken value = Some (value * 2500) \<and>
       infoCaption isToken = of_ascii ''USD Value (approx)'' \<and>
       infoContent toLocaleString isToken tokenSymbol value
         = Some (of_ascii ''$'' @ toLocaleString (value * 2500)))"
  by (simp add: usdValue_def infoCaption_def infoContent_def)

theorem usdValue_only_for_native_witness:
  "usdValue True 1.5 = None \<and>
   infoContent (\<lambda>u. []) True (Some (of_ascii ''USDT'')) 1.5 = Some (of_ascii ''USDT'') \<and>
   usdValue False 1.5 = Some 3750 \<and>
   infoContent (\<lambda>u. []) False (Some (of_ascii ''USDT'')) 1.5 = Some (of_ascii ''$'')"
  using usdValue_only_for_native [of True "1.5" "\<lambda>u. []" "Some (of_ascii ''USDT'')"]
        usdValue_only_for_native [of False "1.5" "\<lambda>u. []" "Some (of_ascii ''USDT'')"]
  by simp

end
